theory Spec2Isabelle
  imports Main
begin

section \<open>The Cognito adapter of the users controller (pkg/cognito/aws.go)\<close>

text \<open>
  The adapter \<open>AWSClient\<close> implements the controller's user-pool port on top of the
  AWS Cognito SDK client. Every method validates its arguments, builds one SDK request,
  sends it and turns the SDK's answer into the port's answer. The SDK client is the
  only collaborator, so it is a parameter of the model: a record of handlers over an
  arbitrary backend state \<open>'s\<close>. Each method threads a \<open>world\<close>: the
  backend state together with the list of requests sent so far, in order.
\<close>

subsection \<open>Data of the SDK and of the port\<close>

text \<open>\<open>types.AttributeType\<close>: both fields are \<open>*string\<close>, so either may be nil.\<close>

record AttributeType =
  Name :: "string option"
  Value :: "string option"

text \<open>\<open>userpool.User\<close>, as the adapter reads and builds it.\<close>

record User =
  Username :: string
  Email :: string
  Enabled :: bool

datatype MessageActionType = MessageActionTypeResend | MessageActionTypeSuppress

text \<open>
  The request and response structs, with the fields the adapter sets or reads. Field
  names carry the operation as a prefix, since several structs share \<open>UserPoolId\<close>
  and \<open>Username\<close>.
\<close>

record AdminCreateUserInput =
  create_UserPoolId :: "string option"
  create_Username :: "string option"
  create_UserAttributes :: "AttributeType list"
  create_MessageAction :: MessageActionType
  create_TemporaryPassword :: "string option"

record AdminGetUserInput =
  get_UserPoolId :: "string option"
  get_Username :: "string option"

record AdminGetUserOutput =
  got_Enabled :: bool
  got_UserAttributes :: "AttributeType list"

record AdminUpdateUserAttributesInput =
  update_UserPoolId :: "string option"
  update_Username :: "string option"
  update_UserAttributes :: "AttributeType list"

record AdminEnableUserInput =
  enable_UserPoolId :: "string option"
  enable_Username :: "string option"

record AdminDisableUserInput =
  disable_UserPoolId :: "string option"
  disable_Username :: "string option"

record AdminDeleteUserInput =
  delete_UserPoolId :: "string option"
  delete_Username :: "string option"

record ListUsersInput =
  list_UserPoolId :: "string option"
  list_PaginationToken :: "string option"

text \<open>\<open>types.UserType\<close>, one record of a page.\<close>

record UserType =
  ut_Username :: "string option"
  ut_Enabled :: bool
  ut_Attributes :: "AttributeType list"

record ListUsersOutput =
  page_Users :: "UserType list"
  page_PaginationToken :: "string option"

text \<open>
  The failures the SDK reports. The adapter never inspects them: it wraps whatever it
  gets. The constructors name the Cognito exceptions behind the spec's error taxonomy.
\<close>

datatype sdk_error =
    UserNotFoundException
  | UsernameExistsException
  | InvalidParameterException
  | TooManyRequestsException
  | InternalErrorException
  | OperationError string

text \<open>
  A Go \<open>error\<close> built by the adapter. \<open>Errorf m\<close> is \<open>fmt.Errorf(m)\<close> with no
  cause; \<open>Wrapf m e\<close> is \<open>fmt.Errorf(m + ": %w", e)\<close>, whose cause \<open>e\<close> stays
  reachable through \<open>errors.Is\<close>/\<open>errors.As\<close>. \<open>Panic\<close> is the run-time panic
  of a nil pointer dereference, which unwinds the method instead of returning.
\<close>

datatype error =
    Errorf string
  | Wrapf string sdk_error
  | Panic string

text \<open>
  The methods of \<open>*cognitoidentityprovider.Client\<close> that the adapter calls. A handler
  takes the request and the backend state and returns the SDK's answer and the next
  state. The responses of the mutating calls are discarded by the adapter (\<open>_\<close>), so
  they are \<open>unit\<close>.
\<close>

record 's CognitoAPI =
  AdminCreateUser :: "AdminCreateUserInput \<Rightarrow> 's \<Rightarrow> (sdk_error + unit) \<times> 's"
  AdminGetUser :: "AdminGetUserInput \<Rightarrow> 's \<Rightarrow> (sdk_error + AdminGetUserOutput) \<times> 's"
  AdminUpdateUserAttributes ::
    "AdminUpdateUserAttributesInput \<Rightarrow> 's \<Rightarrow> (sdk_error + unit) \<times> 's"
  AdminEnableUser :: "AdminEnableUserInput \<Rightarrow> 's \<Rightarrow> (sdk_error + unit) \<times> 's"
  AdminDisableUser :: "AdminDisableUserInput \<Rightarrow> 's \<Rightarrow> (sdk_error + unit) \<times> 's"
  AdminDeleteUser :: "AdminDeleteUserInput \<Rightarrow> 's \<Rightarrow> (sdk_error + unit) \<times> 's"
  cognito_ListUsers :: "ListUsersInput \<Rightarrow> 's \<Rightarrow> (sdk_error + ListUsersOutput) \<times> 's"

text \<open>The struct \<open>AWSClient\<close>.\<close>

record 's AWSClient =
  cognito :: "'s CognitoAPI"
  userPoolID :: string

text \<open>One request sent to the backend.\<close>

datatype call =
    CallAdminCreateUser AdminCreateUserInput
  | CallAdminGetUser AdminGetUserInput
  | CallAdminUpdateUserAttributes AdminUpdateUserAttributesInput
  | CallAdminEnableUser AdminEnableUserInput
  | CallAdminDisableUser AdminDisableUserInput
  | CallAdminDeleteUser AdminDeleteUserInput
  | CallListUsers ListUsersInput

record 's world =
  calls :: "call list"
  pool :: 's

text \<open>
  Sending a request: the handler runs on the backend state, and the request is appended
  to the requests sent.
\<close>

definition invoke ::
  "call \<Rightarrow> ('s \<Rightarrow> (sdk_error + 'o) \<times> 's) \<Rightarrow> 's world \<Rightarrow> (sdk_error + 'o) \<times> 's world" where
  "invoke ev handler w =
     (case handler (pool w) of (r, s') \<Rightarrow> (r, \<lparr>calls = calls w @ [ev], pool = s'\<rparr>))"

text \<open>Reading through a pointer: nil panics.\<close>

definition deref :: "'a option \<Rightarrow> error + 'a" where
  "deref p = (case p of None \<Rightarrow> Inl (Panic ''nil pointer dereference'') | Some x \<Rightarrow> Inr x)"

subsection \<open>CreateUser\<close>

text \<open>
  A nil user and an empty username are rejected before any request is built. The
  request carries the email and \<open>email_verified = true\<close>, suppresses the welcome
  message, and gets the temporary password only for a user that is not enabled.
\<close>

definition CreateUser ::
  "'s AWSClient \<Rightarrow> User option \<Rightarrow> 's world \<Rightarrow> error option \<times> 's world" where
  "CreateUser c user w =
     (case user of
        None \<Rightarrow> (Some (Errorf ''user cannot be nil''), w)
      | Some u \<Rightarrow>
          if Username u = [] then (Some (Errorf ''username cannot be empty''), w)
          else
            let attributes =
                  [\<lparr>Name = Some ''email'', Value = Some (Email u)\<rparr>,
                   \<lparr>Name = Some ''email_verified'', Value = Some ''true''\<rparr>];
                input0 =
                  \<lparr>create_UserPoolId = Some (userPoolID c),
                   create_Username = Some (Username u),
                   create_UserAttributes = attributes,
                   create_MessageAction = MessageActionTypeSuppress,
                   create_TemporaryPassword = None\<rparr>;
                input =
                  (if \<not> Enabled u
                   then input0\<lparr>create_TemporaryPassword := Some ''TempPass123!''\<rparr>
                   else input0)
            in (case invoke (CallAdminCreateUser input) (AdminCreateUser (cognito c) input) w of
                  (Inl err, w') \<Rightarrow>
                    (Some (Wrapf (''failed to create user '' @ Username u) err), w')
                | (Inr _, w') \<Rightarrow> (None, w')))"

subsection \<open>GetUser\<close>

text \<open>
  The loop over the attributes: the first attribute whose name is non-nil and equal to
  \<open>email\<close> and whose value is non-nil sets the email and ends the loop. The second
  argument is the email the user holds when the loop starts.
\<close>

fun extractEmail :: "AttributeType list \<Rightarrow> string \<Rightarrow> error + string" where
  "extractEmail [] email = Inr email"
| "extractEmail (attr # attrs) email =
     (if Name attr = None then extractEmail attrs email
      else case deref (Name attr) of
             Inl e \<Rightarrow> Inl e
           | Inr n \<Rightarrow>
               if n \<noteq> ''email'' then extractEmail attrs email
               else if Value attr = None then extractEmail attrs email
               else deref (Value attr))"

definition GetUser ::
  "'s AWSClient \<Rightarrow> string \<Rightarrow> 's world \<Rightarrow> (error + User) \<times> 's world" where
  "GetUser c username w =
     (if username = [] then (Inl (Errorf ''username cannot be empty''), w)
      else
        let input = \<lparr>get_UserPoolId = Some (userPoolID c), get_Username = Some username\<rparr>
        in case invoke (CallAdminGetUser input) (AdminGetUser (cognito c) input) w of
             (Inl err, w') \<Rightarrow> (Inl (Wrapf (''failed to get user '' @ username) err), w')
           | (Inr output, w') \<Rightarrow>
               (case extractEmail (got_UserAttributes output) [] of
                  Inl e \<Rightarrow> (Inl e, w')
                | Inr email \<Rightarrow>
                    (Inr \<lparr>Username = username, Email = email, Enabled = got_Enabled output\<rparr>,
                     w')))"

subsection \<open>UpdateUser\<close>

text \<open>
  The attribute update is sent first. Only when it succeeds is the user enabled or
  disabled, by the call that matches the desired flag.
\<close>

definition UpdateUser ::
  "'s AWSClient \<Rightarrow> User option \<Rightarrow> 's world \<Rightarrow> error option \<times> 's world" where
  "UpdateUser c user w =
     (case user of
        None \<Rightarrow> (Some (Errorf ''user cannot be nil''), w)
      | Some u \<Rightarrow>
          if Username u = [] then (Some (Errorf ''username cannot be empty''), w)
          else
            let attributes = [\<lparr>Name = Some ''email'', Value = Some (Email u)\<rparr>];
                updateInput =
                  \<lparr>update_UserPoolId = Some (userPoolID c),
                   update_Username = Some (Username u),
                   update_UserAttributes = attributes\<rparr>
            in (case invoke (CallAdminUpdateUserAttributes updateInput)
                       (AdminUpdateUserAttributes (cognito c) updateInput) w of
                  (Inl err, w1) \<Rightarrow>
                    (Some (Wrapf (''failed to update user attributes for '' @ Username u) err),
                     w1)
                | (Inr _, w1) \<Rightarrow>
                    if Enabled u then
                      let enableInput =
                            \<lparr>enable_UserPoolId = Some (userPoolID c),
                             enable_Username = Some (Username u)\<rparr>
                      in (case invoke (CallAdminEnableUser enableInput)
                                 (AdminEnableUser (cognito c) enableInput) w1 of
                            (Inl err, w2) \<Rightarrow>
                              (Some (Wrapf (''failed to enable user '' @ Username u) err), w2)
                          | (Inr _, w2) \<Rightarrow> (None, w2))
                    else
                      let disableInput =
                            \<lparr>disable_UserPoolId = Some (userPoolID c),
                             disable_Username = Some (Username u)\<rparr>
                      in (case invoke (CallAdminDisableUser disableInput)
                                 (AdminDisableUser (cognito c) disableInput) w1 of
                            (Inl err, w2) \<Rightarrow>
                              (Some (Wrapf (''failed to disable user '' @ Username u) err), w2)
                          | (Inr _, w2) \<Rightarrow> (None, w2))))"

subsection \<open>DeleteUser\<close>

definition DeleteUser ::
  "'s AWSClient \<Rightarrow> string \<Rightarrow> 's world \<Rightarrow> error option \<times> 's world" where
  "DeleteUser c username w =
     (if username = [] then (Some (Errorf ''username cannot be empty''), w)
      else
        let input = \<lparr>delete_UserPoolId = Some (userPoolID c), delete_Username = Some username\<rparr>
        in case invoke (CallAdminDeleteUser input) (AdminDeleteUser (cognito c) input) w of
             (Inl err, w') \<Rightarrow> (Some (Wrapf (''failed to delete user '' @ username) err), w')
           | (Inr _, w') \<Rightarrow> (None, w'))"

subsection \<open>ListUsers\<close>

text \<open>
  The inner loop over one page. A record whose username is nil is skipped
  (\<open>continue\<close>); any other record is appended to the users collected so far, with the
  email its attributes give.
\<close>

fun convertUsers :: "UserType list \<Rightarrow> User list \<Rightarrow> error + User list" where
  "convertUsers [] users = Inr users"
| "convertUsers (cognitoUser # rest) users =
     (if ut_Username cognitoUser = None then convertUsers rest users
      else case deref (ut_Username cognitoUser) of
             Inl e \<Rightarrow> Inl e
           | Inr name \<Rightarrow>
               (case extractEmail (ut_Attributes cognitoUser) [] of
                  Inl e \<Rightarrow> Inl e
                | Inr email \<Rightarrow>
                    convertUsers rest
                      (users @ [\<lparr>Username = name, Email = email,
                                 Enabled = ut_Enabled cognitoUser\<rparr>])))"

text \<open>
  The outer loop \<open>for { ... }\<close>. It has no bound of its own: it ends when a request
  fails or when a response carries no token. A backend that always returns a token
  keeps it running, so the loop is a partial function and \<open>None\<close> stands for not
  returning.
\<close>

partial_function (option) ListUsers_loop ::
  "'s AWSClient \<Rightarrow> User list \<Rightarrow> string option \<Rightarrow> 's world
     \<Rightarrow> ((error + User list) \<times> 's world) option" where
  "ListUsers_loop c users nextToken w =
     (let input = \<lparr>list_UserPoolId = Some (userPoolID c), list_PaginationToken = nextToken\<rparr>
      in case invoke (CallListUsers input) (cognito_ListUsers (cognito c) input) w of
           (Inl err, w') \<Rightarrow> Some (Inl (Wrapf ''failed to list users'' err), w')
         | (Inr output, w') \<Rightarrow>
             (case convertUsers (page_Users output) users of
                Inl e \<Rightarrow> Some (Inl e, w')
              | Inr users' \<Rightarrow>
                  (case page_PaginationToken output of
                     None \<Rightarrow> Some (Inr users', w')
                   | Some t \<Rightarrow> ListUsers_loop c users' (Some t) w')))"

declare ListUsers_loop.simps [code]

definition ListUsers ::
  "'s AWSClient \<Rightarrow> 's world \<Rightarrow> ((error + User list) \<times> 's world) option" where
  "ListUsers c w = ListUsers_loop c [] None w"

subsection \<open>Reference notions: emails, observed users, the cursor protocol\<close>

text \<open>
  The email of a backend record as the adapter takes it: the values of the attributes
  named \<open>email\<close>, nil values left out; the first of them, or the empty string.
\<close>

definition email_values :: "AttributeType list \<Rightarrow> string list" where
  "email_values attrs =
     List.map_filter (\<lambda>a. if Name a = Some ''email'' then Value a else None) attrs"

definition first_email :: "AttributeType list \<Rightarrow> string" where
  "first_email attrs = (case email_values attrs of [] \<Rightarrow> [] | v # _ \<Rightarrow> v)"

text \<open>
  The email as the specification words it: the value of the first attribute named
  \<open>email\<close>, and the empty string when there is no such attribute or when that
  attribute's value is nil.
\<close>

definition first_named_email :: "AttributeType list \<Rightarrow> string" where
  "first_named_email attrs =
     (case find (\<lambda>a. Name a = Some ''email'') attrs of
        None \<Rightarrow> []
      | Some a \<Rightarrow> (case Value a of None \<Rightarrow> [] | Some v \<Rightarrow> v))"

text \<open>
  The observed user of one backend record: none for a record without username,
  otherwise the reported username, the email and the enabled flag.
\<close>

definition observed :: "UserType \<Rightarrow> User option" where
  "observed cognitoUser =
     (case ut_Username cognitoUser of
        None \<Rightarrow> None
      | Some name \<Rightarrow>
          Some \<lparr>Username = name, Email = first_email (ut_Attributes cognitoUser),
                Enabled = ut_Enabled cognitoUser\<rparr>)"

text \<open>The usernames that a list of backend records reports, nil ones left out.\<close>

definition reported_usernames :: "UserType list \<Rightarrow> string list" where
  "reported_usernames cognitoUsers = List.map_filter ut_Username cognitoUsers"

text \<open>
  The cursor protocol of the specification's pagination walker, run against a backend
  for at most \<open>n\<close> requests: the first request carries the token given (none at the
  start), every further request carries the token of the response before it, and the
  walk ends with the first response that fails or carries no token. The result is the
  requests sent, the failure or the pages served, and the backend state left behind;
  \<open>None\<close> when \<open>n\<close> requests do not reach the end.
\<close>

fun walk ::
  "nat \<Rightarrow> 's CognitoAPI \<Rightarrow> string \<Rightarrow> string option \<Rightarrow> 's
     \<Rightarrow> (ListUsersInput list \<times> (sdk_error + UserType list list) \<times> 's) option" where
  "walk 0 api poolId token s = None"
| "walk (Suc n) api poolId token s =
     (let input = \<lparr>list_UserPoolId = Some poolId, list_PaginationToken = token\<rparr>
      in case cognito_ListUsers api input s of
           (Inl e, s') \<Rightarrow> Some ([input], Inl e, s')
         | (Inr output, s') \<Rightarrow>
             (case page_PaginationToken output of
                None \<Rightarrow> Some ([input], Inr [page_Users output], s')
              | Some t \<Rightarrow>
                  (case walk n api poolId (Some t) s' of
                     None \<Rightarrow> None
                   | Some (inputs, Inl e, s'') \<Rightarrow> Some (input # inputs, Inl e, s'')
                   | Some (inputs, Inr pages, s'') \<Rightarrow>
                       Some (input # inputs, Inr (page_Users output # pages), s''))))"

text \<open>
  The two requests of an update as its caller states them: the attribute update carries
  the desired email, and the state change is the enable call for a user desired
  enabled and the disable call otherwise. \<open>state_handler\<close> is the backend's handler
  of that state change.
\<close>

definition attributes_request :: "'s AWSClient \<Rightarrow> User \<Rightarrow> AdminUpdateUserAttributesInput" where
  "attributes_request c u =
     \<lparr>update_UserPoolId = Some (userPoolID c), update_Username = Some (Username u),
      update_UserAttributes = [\<lparr>Name = Some ''email'', Value = Some (Email u)\<rparr>]\<rparr>"

definition state_call :: "'s AWSClient \<Rightarrow> User \<Rightarrow> call" where
  "state_call c u =
     (if Enabled u
      then CallAdminEnableUser
             \<lparr>enable_UserPoolId = Some (userPoolID c), enable_Username = Some (Username u)\<rparr>
      else CallAdminDisableUser
             \<lparr>disable_UserPoolId = Some (userPoolID c), disable_Username = Some (Username u)\<rparr>)"

definition state_handler :: "'s AWSClient \<Rightarrow> User \<Rightarrow> 's \<Rightarrow> (sdk_error + unit) \<times> 's" where
  "state_handler c u =
     (if Enabled u
      then AdminEnableUser (cognito c)
             \<lparr>enable_UserPoolId = Some (userPoolID c), enable_Username = Some (Username u)\<rparr>
      else AdminDisableUser (cognito c)
             \<lparr>disable_UserPoolId = Some (userPoolID c), disable_Username = Some (Username u)\<rparr>)"

subsection \<open>A scripted backend for concrete runs\<close>

text \<open>
  A backend that answers every administrative call with a fixed reply and serves the
  list responses of a script, one per request. Its state is the rest of the script;
  past the end of the script it serves an empty last page.
\<close>

record replies =
  create_reply :: "sdk_error + unit"
  get_reply :: "sdk_error + AdminGetUserOutput"
  update_reply :: "sdk_error + unit"
  enable_reply :: "sdk_error + unit"
  disable_reply :: "sdk_error + unit"
  delete_reply :: "sdk_error + unit"

type_synonym script = "(sdk_error + ListUsersOutput) list"

definition scripted :: "replies \<Rightarrow> script CognitoAPI" where
  "scripted r =
     \<lparr>AdminCreateUser = (\<lambda>_ s. (create_reply r, s)),
      AdminGetUser = (\<lambda>_ s. (get_reply r, s)),
      AdminUpdateUserAttributes = (\<lambda>_ s. (update_reply r, s)),
      AdminEnableUser = (\<lambda>_ s. (enable_reply r, s)),
      AdminDisableUser = (\<lambda>_ s. (disable_reply r, s)),
      AdminDeleteUser = (\<lambda>_ s. (delete_reply r, s)),
      cognito_ListUsers =
        (\<lambda>_ s. case s of
                  [] \<Rightarrow> (Inr \<lparr>page_Users = [], page_PaginationToken = None\<rparr>, [])
                | p # ps \<Rightarrow> (p, ps))\<rparr>"

definition all_ok :: replies where
  "all_ok =
     \<lparr>create_reply = Inr (), get_reply = Inr \<lparr>got_Enabled = True, got_UserAttributes = []\<rparr>,
      update_reply = Inr (), enable_reply = Inr (), disable_reply = Inr (),
      delete_reply = Inr ()\<rparr>"

definition client :: "replies \<Rightarrow> script AWSClient" where
  "client r = \<lparr>cognito = scripted r, userPoolID = ''eu-west-1_pool''\<rparr>"

definition start :: "script \<Rightarrow> script world" where
  "start pages = \<lparr>calls = [], pool = pages\<rparr>"

text \<open>Users and backend records of the concrete runs.\<close>

definition alice :: User where
  "alice = \<lparr>Username = ''alice'', Email = ''a@x.com'', Enabled = True\<rparr>"

definition bob :: User where
  "bob = \<lparr>Username = ''bob'', Email = ''b@x.com'', Enabled = False\<rparr>"

definition record_of :: "User \<Rightarrow> UserType" where
  "record_of u =
     \<lparr>ut_Username = Some (Username u), ut_Enabled = Enabled u,
      ut_Attributes = [\<lparr>Name = Some ''email'', Value = Some (Email u)\<rparr>]\<rparr>"

text \<open>
  Two pages that overlap: \<open>bob\<close> is served on both. Three pages whose records carry
  a nil username, nil attribute names and nil attribute values.
\<close>

definition overlapping_pages :: script where
  "overlapping_pages =
     [Inr \<lparr>page_Users = [record_of alice, record_of bob], page_PaginationToken = Some ''t1''\<rparr>,
      Inr \<lparr>page_Users = [record_of bob], page_PaginationToken = None\<rparr>]"

definition three_pages :: script where
  "three_pages =
     [Inr \<lparr>page_Users = [record_of alice], page_PaginationToken = Some ''t1''\<rparr>,
      Inr \<lparr>page_Users =
             [\<lparr>ut_Username = None, ut_Enabled = True,
               ut_Attributes = [\<lparr>Name = Some ''email'', Value = Some ''ghost@x.com''\<rparr>]\<rparr>],
           page_PaginationToken = Some ''t2''\<rparr>,
      Inr \<lparr>page_Users =
             [\<lparr>ut_Username = Some ''bob'', ut_Enabled = False,
               ut_Attributes =
                 [\<lparr>Name = None, Value = Some ''n@x.com''\<rparr>,
                  \<lparr>Name = Some ''email'', Value = None\<rparr>,
                  \<lparr>Name = Some ''email'', Value = Some ''b@x.com''\<rparr>]\<rparr>],
           page_PaginationToken = None\<rparr>]"

text \<open>
  Attributes in which the first one named \<open>email\<close> has a nil value and a later one
  has a value.
\<close>

definition nil_then_value :: "AttributeType list" where
  "nil_then_value =
     [\<lparr>Name = Some ''email'', Value = None\<rparr>,
      \<lparr>Name = Some ''email'', Value = Some ''a@x.com''\<rparr>]"

subsection \<open>An in-memory backend and an endless backend for concrete runs\<close>

text \<open>
  A backend that keeps the accounts of the pool in a list. Creation refuses a username that
  is present and stores the attributes and the temporary password of the request; lookup,
  update, enable, disable and deletion refuse a username that is absent; an attribute
  update replaces the attributes of the same names; listing serves all accounts on one
  page.
\<close>

record account =
  acc_Username :: string
  acc_Attributes :: "AttributeType list"
  acc_Enabled :: bool
  acc_TemporaryPassword :: "string option"

definition modify ::
  "string option \<Rightarrow> (account \<Rightarrow> account) \<Rightarrow> account list \<Rightarrow> (sdk_error + unit) \<times> account list" where
  "modify name f s =
     (case name of
        None \<Rightarrow> (Inl InvalidParameterException, s)
      | Some n \<Rightarrow>
          (case find (\<lambda>a. acc_Username a = n) s of
             None \<Rightarrow> (Inl UserNotFoundException, s)
           | Some _ \<Rightarrow> (Inr (), map (\<lambda>a. if acc_Username a = n then f a else a) s)))"

definition directory :: "account list CognitoAPI" where
  "directory =
     \<lparr>AdminCreateUser =
        (\<lambda>i s. case create_Username i of
                  None \<Rightarrow> (Inl InvalidParameterException, s)
                | Some n \<Rightarrow>
                    (case find (\<lambda>a. acc_Username a = n) s of
                       Some _ \<Rightarrow> (Inl UsernameExistsException, s)
                     | None \<Rightarrow>
                         (Inr (),
                          s @ [\<lparr>acc_Username = n, acc_Attributes = create_UserAttributes i,
                                acc_Enabled = True,
                                acc_TemporaryPassword = create_TemporaryPassword i\<rparr>]))),
      AdminGetUser =
        (\<lambda>i s. case get_Username i of
                  None \<Rightarrow> (Inl InvalidParameterException, s)
                | Some n \<Rightarrow>
                    (case find (\<lambda>a. acc_Username a = n) s of
                       None \<Rightarrow> (Inl UserNotFoundException, s)
                     | Some a \<Rightarrow>
                         (Inr \<lparr>got_Enabled = acc_Enabled a,
                               got_UserAttributes = acc_Attributes a\<rparr>, s))),
      AdminUpdateUserAttributes =
        (\<lambda>i. modify (update_Username i)
                (\<lambda>a. a\<lparr>acc_Attributes :=
                          update_UserAttributes i @
                          filter (\<lambda>b. Name b \<notin> set (map Name (update_UserAttributes i)))
                            (acc_Attributes a)\<rparr>)),
      AdminEnableUser = (\<lambda>i. modify (enable_Username i) (\<lambda>a. a\<lparr>acc_Enabled := True\<rparr>)),
      AdminDisableUser = (\<lambda>i. modify (disable_Username i) (\<lambda>a. a\<lparr>acc_Enabled := False\<rparr>)),
      AdminDeleteUser =
        (\<lambda>i s. case delete_Username i of
                  None \<Rightarrow> (Inl InvalidParameterException, s)
                | Some n \<Rightarrow>
                    (case find (\<lambda>a. acc_Username a = n) s of
                       None \<Rightarrow> (Inl UserNotFoundException, s)
                     | Some _ \<Rightarrow> (Inr (), filter (\<lambda>a. acc_Username a \<noteq> n) s))),
      cognito_ListUsers =
        (\<lambda>i s. (Inr \<lparr>page_Users =
                       map (\<lambda>a. \<lparr>ut_Username = Some (acc_Username a),
                                  ut_Enabled = acc_Enabled a,
                                  ut_Attributes = acc_Attributes a\<rparr>) s,
                     page_PaginationToken = None\<rparr>, s))\<rparr>"

definition directory_client :: "account list AWSClient" where
  "directory_client = \<lparr>cognito = directory, userPoolID = ''eu-west-1_pool''\<rparr>"

text \<open>A pool that holds \<open>bob\<close> enabled and with an old email.\<close>

definition stale_bob :: "account list" where
  "stale_bob =
     [\<lparr>acc_Username = ''bob'',
       acc_Attributes = [\<lparr>Name = Some ''email'', Value = Some ''old@x.com''\<rparr>],
       acc_Enabled = True, acc_TemporaryPassword = None\<rparr>]"




section \<open>Properties\<close>

subsection \<open>Auxiliary facts\<close>

lemma invoke_reply:
  "handler (pool w) = (r, s') \<Longrightarrow>
   invoke ev handler w = (r, \<lparr>calls = calls w @ [ev], pool = s'\<rparr>)"
  by (simp add: invoke_def)

lemma extractEmail_eq:
  "extractEmail attrs email = Inr (case email_values attrs of [] \<Rightarrow> email | v # _ \<Rightarrow> v)"
  by (induction attrs) (auto simp: email_values_def deref_def)

lemma convertUsers_eq: "convertUsers cus users = Inr (users @ List.map_filter observed cus)"
  by (induction cus arbitrary: users)
     (auto simp: extractEmail_eq first_email_def observed_def deref_def)

lemma map_filter_append:
  "List.map_filter f (xs @ ys) = List.map_filter f xs @ List.map_filter f ys"
  by (simp add: List.map_filter_def)

lemma Username_observed: "map Username (List.map_filter observed cus) = reported_usernames cus"
  by (induction cus) (auto simp: observed_def reported_usernames_def split: option.splits)

lemma Email_observed:
  "map Email (List.map_filter observed cus) =
   map (\<lambda>cu. first_email (ut_Attributes cu)) (filter (\<lambda>cu. ut_Username cu \<noteq> None) cus)"
  by (induction cus) (auto simp: observed_def split: option.splits)

lemma email_values_filter:
  "email_values (filter (\<lambda>a. Name a \<noteq> None \<and> Value a \<noteq> None) attrs) = email_values attrs"
  by (induction attrs) (auto simp: email_values_def)

lemma walk_loop:
  "walk n (cognito c) (userPoolID c) tok (pool w) = Some (reqs, r, s') \<Longrightarrow>
   ListUsers_loop c users tok w =
     Some (case r of Inl e \<Rightarrow> Inl (Wrapf ''failed to list users'' e)
                   | Inr ps \<Rightarrow> Inr (users @ List.map_filter observed (concat ps)),
           \<lparr>calls = calls w @ map CallListUsers reqs, pool = s'\<rparr>)"
proof (induction n arbitrary: tok w users reqs r s')
  case 0
  then show ?case by simp
next
  case (Suc n)
  let ?input = "\<lparr>list_UserPoolId = Some (userPoolID c), list_PaginationToken = tok\<rparr>"
  obtain a s1 where resp: "cognito_ListUsers (cognito c) ?input (pool w) = (a, s1)"
    by (cases "cognito_ListUsers (cognito c) ?input (pool w)")
  show ?case
  proof (cases a)
    case (Inl e)
    with Suc.prems resp show ?thesis
      by (subst ListUsers_loop.simps) (auto simp: invoke_def)
  next
    case (Inr out)
    show ?thesis
    proof (cases "page_PaginationToken out")
      case None
      with Suc.prems resp Inr show ?thesis
        by (subst ListUsers_loop.simps) (auto simp: invoke_def convertUsers_eq)
    next
      case (Some t)
      let ?w1 = "\<lparr>calls = calls w @ [CallListUsers ?input], pool = s1\<rparr>"
      from Suc.prems resp Inr Some obtain reqs1 r1 where
        w1: "walk n (cognito c) (userPoolID c) (Some t) (pool ?w1) = Some (reqs1, r1, s')"
        and reqs: "reqs = ?input # reqs1"
        and r: "r = (case r1 of Inl e \<Rightarrow> Inl e | Inr ps \<Rightarrow> Inr (page_Users out # ps))"
        by (auto simp: Let_def split: option.splits sum.splits)
      from Suc.IH [OF w1] resp Inr Some reqs r show ?thesis
        by (subst ListUsers_loop.simps)
           (auto simp: invoke_def convertUsers_eq map_filter_append split: sum.splits)
    qed
  qed
qed

lemma loop_walk:
  assumes "ListUsers_loop c users tok w = Some y"
  shows "\<exists>n. walk n (cognito c) (userPoolID c) tok (pool w) \<noteq> None"
  using assms
proof (induction rule: ListUsers_loop.raw_induct [rotated 1, consumes 1, case_names step])
  case (step f c users tok w y)
  let ?input = "\<lparr>list_UserPoolId = Some (userPoolID c), list_PaginationToken = tok\<rparr>"
  obtain a s1 where resp: "cognito_ListUsers (cognito c) ?input (pool w) = (a, s1)"
    by (cases "cognito_ListUsers (cognito c) ?input (pool w)")
  show ?case
  proof (cases a)
    case (Inl e)
    with resp have "walk (Suc 0) (cognito c) (userPoolID c) tok (pool w) \<noteq> None" by simp
    then show ?thesis by blast
  next
    case (Inr out)
    show ?thesis
    proof (cases "page_PaginationToken out")
      case None
      with resp Inr have "walk (Suc 0) (cognito c) (userPoolID c) tok (pool w) \<noteq> None" by simp
      then show ?thesis by blast
    next
      case (Some t)
      let ?w1 = "\<lparr>calls = calls w @ [CallListUsers ?input], pool = s1\<rparr>"
      from step(2) resp Inr Some
      have "f c (users @ List.map_filter observed (page_Users out)) (Some t) ?w1 = Some y"
        by (simp add: invoke_def convertUsers_eq)
      from step(1) [OF this] obtain n where
        "walk n (cognito c) (userPoolID c) (Some t) s1 \<noteq> None" by auto
      with resp Inr Some have "walk (Suc n) (cognito c) (userPoolID c) tok (pool w) \<noteq> None"
        by (auto simp: Let_def split: sum.splits)
      then show ?thesis by blast
    qed
  qed
qed


subsection \<open>DeleteUser\<close>

text \<open>
  A backend whose deletion call reports that the user does not exist: \<open>DeleteUser\<close>
  does not return nil, it returns the wrapped failure.
\<close>

theorem DeleteUser_not_found_counterexample:
  "AdminDeleteUser (cognito (client (all_ok\<lparr>delete_reply := Inl UserNotFoundException\<rparr>)))
     \<lparr>delete_UserPoolId = Some ''eu-west-1_pool'', delete_Username = Some ''alice''\<rparr> []
     = (Inl UserNotFoundException, []) \<and>
   fst (DeleteUser (client (all_ok\<lparr>delete_reply := Inl UserNotFoundException\<rparr>)) ''alice''
          (start []))
     = Some (Wrapf ''failed to delete user alice'' UserNotFoundException)"
  by (simp add: DeleteUser_def client_def scripted_def all_ok_def start_def invoke_def)

text \<open>
  Claim C1, as the code has it. For a non-empty username \<open>DeleteUser\<close> sends exactly
  one deletion request and returns nil exactly when the backend accepts it. Whatever
  failure the backend reports, the not-found one included, comes back to the caller
  wrapped in an error; treating not-found as success is left to the caller.
\<close>

theorem DeleteUser_surfaces_backend_result:
  assumes "username \<noteq> []"
    and "AdminDeleteUser (cognito c)
           \<lparr>delete_UserPoolId = Some (userPoolID c), delete_Username = Some username\<rparr> (pool w)
         = (r, s')"
  shows "DeleteUser c username w =
           ((case r of Inl e \<Rightarrow> Some (Wrapf (''failed to delete user '' @ username) e)
                     | Inr _ \<Rightarrow> None),
            \<lparr>calls = calls w @
               [CallAdminDeleteUser
                  \<lparr>delete_UserPoolId = Some (userPoolID c), delete_Username = Some username\<rparr>],
             pool = s'\<rparr>)"
  using assms by (cases r) (simp_all add: DeleteUser_def invoke_reply)

theorem DeleteUser_surfaces_backend_result_witness:
  "DeleteUser (client (all_ok\<lparr>delete_reply := Inl TooManyRequestsException\<rparr>)) ''alice''
     (start [])
   = (Some (Wrapf ''failed to delete user alice'' TooManyRequestsException),
      \<lparr>calls = [CallAdminDeleteUser \<lparr>delete_UserPoolId = Some ''eu-west-1_pool'',
                                     delete_Username = Some ''alice''\<rparr>],
       pool = []\<rparr>) \<and>
   DeleteUser (client all_ok) ''alice'' (start [])
   = (None,
      \<lparr>calls = [CallAdminDeleteUser \<lparr>delete_UserPoolId = Some ''eu-west-1_pool'',
                                     delete_Username = Some ''alice''\<rparr>],
       pool = []\<rparr>)"
  using DeleteUser_surfaces_backend_result
          [of "''alice''" "client (all_ok\<lparr>delete_reply := Inl TooManyRequestsException\<rparr>)"
              "start []" "Inl TooManyRequestsException" "[]"]
        DeleteUser_surfaces_backend_result
          [of "''alice''" "client all_ok" "start []" "Inr ()" "[]"]
  by (simp add: client_def scripted_def all_ok_def start_def)

subsection \<open>CreateUser\<close>

text \<open>
  Claim C3. For every user with a non-empty username, \<open>CreateUser\<close> hands the backend
  one creation request and takes over the backend's answer and state. The request of a
  user that is not enabled carries the fixed temporary password \<open>TempPass123!\<close>, and
  the request of an enabled user carries no temporary password; no part of the request
  is generated.
\<close>

theorem CreateUser_temporary_password:
  assumes "Username u \<noteq> []"
    and "AdminCreateUser (cognito c)
           \<lparr>create_UserPoolId = Some (userPoolID c),
            create_Username = Some (Username u),
            create_UserAttributes =
              [\<lparr>Name = Some ''email'', Value = Some (Email u)\<rparr>,
               \<lparr>Name = Some ''email_verified'', Value = Some ''true''\<rparr>],
            create_MessageAction = MessageActionTypeSuppress,
            create_TemporaryPassword = (if Enabled u then None else Some ''TempPass123!'')\<rparr>
           (pool w)
         = (r, s')"
  shows "CreateUser c (Some u) w =
           ((case r of Inl e \<Rightarrow> Some (Wrapf (''failed to create user '' @ Username u) e)
                     | Inr _ \<Rightarrow> None),
            \<lparr>calls = calls w @
               [CallAdminCreateUser
                  \<lparr>create_UserPoolId = Some (userPoolID c),
                   create_Username = Some (Username u),
                   create_UserAttributes =
                     [\<lparr>Name = Some ''email'', Value = Some (Email u)\<rparr>,
                      \<lparr>Name = Some ''email_verified'', Value = Some ''true''\<rparr>],
                   create_MessageAction = MessageActionTypeSuppress,
                   create_TemporaryPassword =
                     (if Enabled u then None else Some ''TempPass123!'')\<rparr>],
             pool = s'\<rparr>)"
  using assms by (cases r; cases "Enabled u") (simp_all add: CreateUser_def invoke_reply)

theorem CreateUser_temporary_password_witness:
  "CreateUser directory_client (Some bob) \<lparr>calls = [], pool = []\<rparr> =
     (None,
      \<lparr>calls =
         [CallAdminCreateUser
            \<lparr>create_UserPoolId = Some ''eu-west-1_pool'',
             create_Username = Some ''bob'',
             create_UserAttributes =
               [\<lparr>Name = Some ''email'', Value = Some ''b@x.com''\<rparr>,
                \<lparr>Name = Some ''email_verified'', Value = Some ''true''\<rparr>],
             create_MessageAction = MessageActionTypeSuppress,
             create_TemporaryPassword = Some ''TempPass123!''\<rparr>],
       pool =
         [\<lparr>acc_Username = ''bob'',
           acc_Attributes =
             [\<lparr>Name = Some ''email'', Value = Some ''b@x.com''\<rparr>,
              \<lparr>Name = Some ''email_verified'', Value = Some ''true''\<rparr>],
           acc_Enabled = True, acc_TemporaryPassword = Some ''TempPass123!''\<rparr>]\<rparr>) \<and>
   CreateUser directory_client (Some alice) \<lparr>calls = [], pool = []\<rparr> =
     (None,
      \<lparr>calls =
         [CallAdminCreateUser
            \<lparr>create_UserPoolId = Some ''eu-west-1_pool'',
             create_Username = Some ''alice'',
             create_UserAttributes =
               [\<lparr>Name = Some ''email'', Value = Some ''a@x.com''\<rparr>,
                \<lparr>Name = Some ''email_verified'', Value = Some ''true''\<rparr>],
             create_MessageAction = MessageActionTypeSuppress,
             create_TemporaryPassword = None\<rparr>],
       pool =
         [\<lparr>acc_Username = ''alice'',
           acc_Attributes =
             [\<lparr>Name = Some ''email'', Value = Some ''a@x.com''\<rparr>,
              \<lparr>Name = Some ''email_verified'', Value = Some ''true''\<rparr>],
           acc_Enabled = True, acc_TemporaryPassword = None\<rparr>]\<rparr>)"
  using CreateUser_temporary_password
          [where u = bob and c = directory_client and w = "\<lparr>calls = [], pool = []\<rparr>"
             and r = "Inr ()"
             and s' = "[\<lparr>acc_Username = ''bob'',
                         acc_Attributes =
                           [\<lparr>Name = Some ''email'', Value = Some ''b@x.com''\<rparr>,
                            \<lparr>Name = Some ''email_verified'', Value = Some ''true''\<rparr>],
                         acc_Enabled = True,
                         acc_TemporaryPassword = Some ''TempPass123!''\<rparr>]"]
        CreateUser_temporary_password
          [where u = alice and c = directory_client and w = "\<lparr>calls = [], pool = []\<rparr>"
             and r = "Inr ()"
             and s' = "[\<lparr>acc_Username = ''alice'',
                         acc_Attributes =
                           [\<lparr>Name = Some ''email'', Value = Some ''a@x.com''\<rparr>,
                            \<lparr>Name = Some ''email_verified'', Value = Some ''true''\<rparr>],
                         acc_Enabled = True, acc_TemporaryPassword = None\<rparr>]"]
  by (simp add: directory_client_def directory_def alice_def bob_def)

text \<open>
  A backend whose creation call reports that the username exists: \<open>CreateUser\<close> does
  not return nil, it returns the wrapped failure.
\<close>

theorem CreateUser_already_exists_counterexample:
  "AdminCreateUser (cognito (client (all_ok\<lparr>create_reply := Inl UsernameExistsException\<rparr>)))
     \<lparr>create_UserPoolId = Some ''eu-west-1_pool'',
      create_Username = Some ''alice'',
      create_UserAttributes =
        [\<lparr>Name = Some ''email'', Value = Some ''a@x.com''\<rparr>,
         \<lparr>Name = Some ''email_verified'', Value = Some ''true''\<rparr>],
      create_MessageAction = MessageActionTypeSuppress,
      create_TemporaryPassword = None\<rparr> []
     = (Inl UsernameExistsException, []) \<and>
   fst (CreateUser (client (all_ok\<lparr>create_reply := Inl UsernameExistsException\<rparr>)) (Some alice)
          (start []))
     = Some (Wrapf ''failed to create user alice'' UsernameExistsException)"
  by (simp add: CreateUser_def client_def scripted_def all_ok_def start_def invoke_def alice_def)

text \<open>
  Claim C5, as the code has it. For a user with a non-empty username \<open>CreateUser\<close>
  returns nil exactly when the backend accepts the creation request. A failure of the
  backend, the already-exists one included, comes back to the caller wrapped in an
  error; creation is not made idempotent inside the adapter.
\<close>

theorem CreateUser_surfaces_backend_result:
  assumes "Username u \<noteq> []"
    and "AdminCreateUser (cognito c)
           \<lparr>create_UserPoolId = Some (userPoolID c),
            create_Username = Some (Username u),
            create_UserAttributes =
              [\<lparr>Name = Some ''email'', Value = Some (Email u)\<rparr>,
               \<lparr>Name = Some ''email_verified'', Value = Some ''true''\<rparr>],
            create_MessageAction = MessageActionTypeSuppress,
            create_TemporaryPassword = (if Enabled u then None else Some ''TempPass123!'')\<rparr>
           (pool w)
         = (r, s')"
  shows "fst (CreateUser c (Some u) w) =
           (case r of Inl e \<Rightarrow> Some (Wrapf (''failed to create user '' @ Username u) e)
                    | Inr _ \<Rightarrow> None) \<and>
         pool (snd (CreateUser c (Some u) w)) = s'"
  using assms by (cases r; cases "Enabled u") (simp_all add: CreateUser_def invoke_reply)

theorem CreateUser_surfaces_backend_result_witness:
  "fst (CreateUser (client (all_ok\<lparr>create_reply := Inl UsernameExistsException\<rparr>)) (Some bob)
          (start []))
     = Some (Wrapf ''failed to create user bob'' UsernameExistsException) \<and>
   fst (CreateUser (client all_ok) (Some bob) (start [])) = None"
  using CreateUser_surfaces_backend_result
          [of bob "client (all_ok\<lparr>create_reply := Inl UsernameExistsException\<rparr>)" "start []"
              "Inl UsernameExistsException" "[]"]
        CreateUser_surfaces_backend_result [of bob "client all_ok" "start []" "Inr ()" "[]"]
  by (simp add: client_def scripted_def all_ok_def start_def bob_def)

text \<open>
  Claim C8. A nil user and a user with an empty username are rejected with the
  validation errors \<open>user cannot be nil\<close> and \<open>username cannot be empty\<close>, which carry
  no backend cause, and the world is returned as it was: no request is sent and the
  backend state is untouched.
\<close>

theorem CreateUser_rejects_invalid:
  "CreateUser c None w = (Some (Errorf ''user cannot be nil''), w) \<and>
   (Username u = [] \<longrightarrow>
      CreateUser c (Some u) w = (Some (Errorf ''username cannot be empty''), w))"
  by (simp add: CreateUser_def)

theorem CreateUser_rejects_invalid_witness:
  "CreateUser (client all_ok) None (start []) =
     (Some (Errorf ''user cannot be nil''), \<lparr>calls = [], pool = []\<rparr>) \<and>
   CreateUser (client all_ok) (Some \<lparr>Username = [], Email = ''a@x.com'', Enabled = True\<rparr>)
     (start []) =
     (Some (Errorf ''username cannot be empty''), \<lparr>calls = [], pool = []\<rparr>)"
  using CreateUser_rejects_invalid
          [of "client all_ok" "start []" "\<lparr>Username = [], Email = ''a@x.com'', Enabled = True\<rparr>"]
  by (simp add: start_def)

subsection \<open>GetUser\<close>

text \<open>
  A backend whose lookup reports that the user does not exist: \<open>GetUser\<close> returns an
  error, not an absent user without error.
\<close>

theorem GetUser_not_found_counterexample:
  "AdminGetUser (cognito (client (all_ok\<lparr>get_reply := Inl UserNotFoundException\<rparr>)))
     \<lparr>get_UserPoolId = Some ''eu-west-1_pool'', get_Username = Some ''alice''\<rparr> []
     = (Inl UserNotFoundException, []) \<and>
   fst (GetUser (client (all_ok\<lparr>get_reply := Inl UserNotFoundException\<rparr>)) ''alice'' (start []))
     = Inl (Wrapf ''failed to get user alice'' UserNotFoundException)"
  by (simp add: GetUser_def client_def scripted_def all_ok_def start_def invoke_def)

text \<open>
  Claim C4, as the code has it. \<open>GetUser\<close> has no found flag. Every failure of the
  backend lookup, a record that does not exist as much as a transient failure, comes
  back as an error that wraps the backend's failure, together with no user; the two
  kinds of failure differ only in the wrapped cause.
\<close>

theorem GetUser_surfaces_backend_failure:
  assumes "username \<noteq> []"
    and "AdminGetUser (cognito c)
           \<lparr>get_UserPoolId = Some (userPoolID c), get_Username = Some username\<rparr> (pool w)
         = (Inl e, s')"
  shows "GetUser c username w =
           (Inl (Wrapf (''failed to get user '' @ username) e),
            \<lparr>calls = calls w @
               [CallAdminGetUser
                  \<lparr>get_UserPoolId = Some (userPoolID c), get_Username = Some username\<rparr>],
             pool = s'\<rparr>)"
  using assms by (simp add: GetUser_def invoke_reply)

theorem GetUser_surfaces_backend_failure_witness:
  "GetUser (client (all_ok\<lparr>get_reply := Inl UserNotFoundException\<rparr>)) ''alice'' (start [])
   = (Inl (Wrapf ''failed to get user alice'' UserNotFoundException),
      \<lparr>calls = [CallAdminGetUser \<lparr>get_UserPoolId = Some ''eu-west-1_pool'',
                                  get_Username = Some ''alice''\<rparr>],
       pool = []\<rparr>) \<and>
   GetUser (client (all_ok\<lparr>get_reply := Inl TooManyRequestsException\<rparr>)) ''alice'' (start [])
   = (Inl (Wrapf ''failed to get user alice'' TooManyRequestsException),
      \<lparr>calls = [CallAdminGetUser \<lparr>get_UserPoolId = Some ''eu-west-1_pool'',
                                  get_Username = Some ''alice''\<rparr>],
       pool = []\<rparr>)"
  using GetUser_surfaces_backend_failure
          [of "''alice''" "client (all_ok\<lparr>get_reply := Inl UserNotFoundException\<rparr>)" "start []"
              UserNotFoundException "[]"]
        GetUser_surfaces_backend_failure
          [of "''alice''" "client (all_ok\<lparr>get_reply := Inl TooManyRequestsException\<rparr>)"
              "start []" TooManyRequestsException "[]"]
  by (simp add: client_def scripted_def all_ok_def start_def)

text \<open>
  The first attribute named \<open>email\<close> has a nil value and a later one has a value: the
  specification's wording gives the empty string, while \<open>GetUser\<close> and the page loop
  of \<open>ListUsers\<close> return the later value.
\<close>

theorem first_named_email_counterexample:
  "fst (GetUser
          (client (all_ok\<lparr>get_reply :=
                            Inr \<lparr>got_Enabled = True, got_UserAttributes = nil_then_value\<rparr>\<rparr>))
          ''alice'' (start []))
     = Inr \<lparr>Username = ''alice'', Email = ''a@x.com'', Enabled = True\<rparr> \<and>
   first_named_email nil_then_value = [] \<and>
   convertUsers [\<lparr>ut_Username = Some ''alice'', ut_Enabled = True,
                  ut_Attributes = nil_then_value\<rparr>] []
     = Inr [\<lparr>Username = ''alice'', Email = ''a@x.com'', Enabled = True\<rparr>]"
  by (simp add: GetUser_def client_def scripted_def all_ok_def start_def invoke_def
        nil_then_value_def first_named_email_def deref_def)

text \<open>
  Claim C9, as the code has it. In \<open>GetUser\<close> and in \<open>ListUsers\<close> the email of a
  returned user is the value of the first attribute that is named \<open>email\<close> and has a
  non-nil value, and the empty string when the record has no such attribute.
\<close>

theorem email_is_first_non_nil_email_value:
  "(username \<noteq> [] \<and>
    AdminGetUser (cognito c)
      \<lparr>get_UserPoolId = Some (userPoolID c), get_Username = Some username\<rparr> (pool w)
      = (Inr out, s') \<longrightarrow>
    fst (GetUser c username w) =
      Inr \<lparr>Username = username, Email = first_email (got_UserAttributes out),
           Enabled = got_Enabled out\<rparr>) \<and>
   (walk n (cognito c) (userPoolID c) None (pool w) = Some (reqs, Inr ps, s'') \<longrightarrow>
    (\<exists>us w'. ListUsers c w = Some (Inr us, w') \<and>
       map Email us =
         map (\<lambda>cu. first_email (ut_Attributes cu))
           (filter (\<lambda>cu. ut_Username cu \<noteq> None) (concat ps))))"
proof (intro conjI impI)
  assume "username \<noteq> [] \<and>
    AdminGetUser (cognito c)
      \<lparr>get_UserPoolId = Some (userPoolID c), get_Username = Some username\<rparr> (pool w)
      = (Inr out, s')"
  then show "fst (GetUser c username w) =
      Inr \<lparr>Username = username, Email = first_email (got_UserAttributes out),
           Enabled = got_Enabled out\<rparr>"
    by (simp add: GetUser_def invoke_reply extractEmail_eq first_email_def)
next
  assume "walk n (cognito c) (userPoolID c) None (pool w) = Some (reqs, Inr ps, s'')"
  from walk_loop [OF this, of "[]"]
  have "ListUsers c w =
          Some (Inr (List.map_filter observed (concat ps)),
                \<lparr>calls = calls w @ map CallListUsers reqs, pool = s''\<rparr>)"
    by (simp add: ListUsers_def)
  then show "\<exists>us w'. ListUsers c w = Some (Inr us, w') \<and>
       map Email us =
         map (\<lambda>cu. first_email (ut_Attributes cu))
           (filter (\<lambda>cu. ut_Username cu \<noteq> None) (concat ps))"
    by (simp add: Email_observed)
qed

theorem email_is_first_non_nil_email_value_witness:
  "fst (GetUser
          (client (all_ok\<lparr>get_reply :=
                            Inr \<lparr>got_Enabled = True, got_UserAttributes = nil_then_value\<rparr>\<rparr>))
          ''alice'' (start []))
     = Inr \<lparr>Username = ''alice'', Email = ''a@x.com'', Enabled = True\<rparr> \<and>
   (\<exists>us w'. ListUsers (client all_ok) (start three_pages) = Some (Inr us, w') \<and>
      map Email us = [''a@x.com'', ''b@x.com''])"
  using email_is_first_non_nil_email_value
          [of "''alice''"
              "client (all_ok\<lparr>get_reply :=
                                Inr \<lparr>got_Enabled = True, got_UserAttributes = nil_then_value\<rparr>\<rparr>)"
              "start []" "\<lparr>got_Enabled = True, got_UserAttributes = nil_then_value\<rparr>" "[]"
              0 "[]" "[]" "[]"]
        email_is_first_non_nil_email_value
          [of "''alice''" "client all_ok" "start three_pages"
              "\<lparr>got_Enabled = True, got_UserAttributes = []\<rparr>" "three_pages"
              "Suc (Suc (Suc 0))"
              "[\<lparr>list_UserPoolId = Some ''eu-west-1_pool'', list_PaginationToken = None\<rparr>,
                \<lparr>list_UserPoolId = Some ''eu-west-1_pool'', list_PaginationToken = Some ''t1''\<rparr>,
                \<lparr>list_UserPoolId = Some ''eu-west-1_pool'', list_PaginationToken = Some ''t2''\<rparr>]"
              "map (\<lambda>p. case p of Inl _ \<Rightarrow> [] | Inr out \<Rightarrow> page_Users out) three_pages" "[]"]
  by (simp add: client_def scripted_def all_ok_def start_def three_pages_def nil_then_value_def
        first_email_def email_values_def record_of_def alice_def)

subsection \<open>UpdateUser\<close>

text \<open>
  Claim C7. For a user with a non-empty username, \<open>UpdateUser\<close> first hands the
  backend the attribute update that carries the desired email. When the backend refuses
  it, the wrapped failure is returned, no enable or disable request is sent, and the
  backend is left as the refused update left it. When the backend accepts it, the
  enable call for a user desired enabled, or the disable call otherwise, is handed to
  the backend in the state the attribute update produced, and the backend is left in
  the state that call produced. Nil is returned exactly when the backend has accepted
  both requests, so on success the backend has applied the desired email and then the
  desired state.
\<close>

theorem UpdateUser_attributes_then_state:
  assumes "Username u \<noteq> []"
    and "AdminUpdateUserAttributes (cognito c) (attributes_request c u) (pool w) = (r1, s1)"
    and "state_handler c u s1 = (r2, s2)"
  shows "UpdateUser c (Some u) w =
           (case r1 of
              Inl e \<Rightarrow>
                (Some (Wrapf (''failed to update user attributes for '' @ Username u) e),
                 \<lparr>calls = calls w @ [CallAdminUpdateUserAttributes (attributes_request c u)],
                  pool = s1\<rparr>)
            | Inr _ \<Rightarrow>
                (case r2 of
                   Inl e \<Rightarrow>
                     Some (Wrapf ((if Enabled u then ''failed to enable user ''
                                   else ''failed to disable user '') @ Username u) e)
                 | Inr _ \<Rightarrow> None,
                 \<lparr>calls = calls w @
                    [CallAdminUpdateUserAttributes (attributes_request c u), state_call c u],
                  pool = s2\<rparr>)) \<and>
         (fst (UpdateUser c (Some u) w) = None \<longleftrightarrow> r1 = Inr () \<and> r2 = Inr ())"
proof -
  have run: "UpdateUser c (Some u) w =
           (case r1 of
              Inl e \<Rightarrow>
                (Some (Wrapf (''failed to update user attributes for '' @ Username u) e),
                 \<lparr>calls = calls w @ [CallAdminUpdateUserAttributes (attributes_request c u)],
                  pool = s1\<rparr>)
            | Inr _ \<Rightarrow>
                (case r2 of
                   Inl e \<Rightarrow>
                     Some (Wrapf ((if Enabled u then ''failed to enable user ''
                                   else ''failed to disable user '') @ Username u) e)
                 | Inr _ \<Rightarrow> None,
                 \<lparr>calls = calls w @
                    [CallAdminUpdateUserAttributes (attributes_request c u), state_call c u],
                  pool = s2\<rparr>))"
  proof (cases r1)
    case (Inl e)
    with assms(1,2) show ?thesis
      by (simp add: UpdateUser_def attributes_request_def invoke_reply)
  next
    case (Inr x)
    with assms show ?thesis
      by (cases r2; cases "Enabled u")
         (simp_all add: UpdateUser_def attributes_request_def state_handler_def state_call_def
            invoke_reply)
  qed
  have "fst (UpdateUser c (Some u) w) = None \<longleftrightarrow> r1 = Inr () \<and> r2 = Inr ()"
    unfolding run by (cases r1; cases r2) simp_all
  with run show ?thesis by (rule conjI)
qed

theorem UpdateUser_attributes_then_state_witness:
  "UpdateUser directory_client (Some bob) \<lparr>calls = [], pool = stale_bob\<rparr> =
     (None,
      \<lparr>calls =
         [CallAdminUpdateUserAttributes
            \<lparr>update_UserPoolId = Some ''eu-west-1_pool'', update_Username = Some ''bob'',
             update_UserAttributes = [\<lparr>Name = Some ''email'', Value = Some ''b@x.com''\<rparr>]\<rparr>,
          CallAdminDisableUser
            \<lparr>disable_UserPoolId = Some ''eu-west-1_pool'', disable_Username = Some ''bob''\<rparr>],
       pool =
         [\<lparr>acc_Username = ''bob'',
           acc_Attributes = [\<lparr>Name = Some ''email'', Value = Some ''b@x.com''\<rparr>],
           acc_Enabled = False, acc_TemporaryPassword = None\<rparr>]\<rparr>) \<and>
   fst (GetUser directory_client ''bob''
          (snd (UpdateUser directory_client (Some bob) \<lparr>calls = [], pool = stale_bob\<rparr>)))
     = Inr bob \<and>
   UpdateUser directory_client (Some alice) \<lparr>calls = [], pool = stale_bob\<rparr> =
     (Some (Wrapf ''failed to update user attributes for alice'' UserNotFoundException),
      \<lparr>calls =
         [CallAdminUpdateUserAttributes
            \<lparr>update_UserPoolId = Some ''eu-west-1_pool'', update_Username = Some ''alice'',
             update_UserAttributes = [\<lparr>Name = Some ''email'', Value = Some ''a@x.com''\<rparr>]\<rparr>],
       pool = stale_bob\<rparr>)"
proof -
  let ?fresh = "[\<lparr>acc_Username = ''bob'',
                  acc_Attributes = [\<lparr>Name = Some ''email'', Value = Some ''b@x.com''\<rparr>],
                  acc_Enabled = True, acc_TemporaryPassword = None\<rparr>]"
  let ?done = "[\<lparr>acc_Username = ''bob'',
                 acc_Attributes = [\<lparr>Name = Some ''email'', Value = Some ''b@x.com''\<rparr>],
                 acc_Enabled = False, acc_TemporaryPassword = None\<rparr>]"
  have b: "Username bob \<noteq> []" and a: "Username alice \<noteq> []"
    by (simp_all add: alice_def bob_def)
  have b1: "AdminUpdateUserAttributes (cognito directory_client)
              (attributes_request directory_client bob) (pool \<lparr>calls = [], pool = stale_bob\<rparr>)
            = (Inr (), ?fresh)"
    by (simp add: directory_client_def directory_def modify_def attributes_request_def
          stale_bob_def bob_def)
  have b2: "state_handler directory_client bob ?fresh = (Inr (), ?done)"
    by (simp add: directory_client_def directory_def modify_def state_handler_def bob_def)
  have a1: "AdminUpdateUserAttributes (cognito directory_client)
              (attributes_request directory_client alice)
              (pool \<lparr>calls = [], pool = stale_bob\<rparr>)
            = (Inl UserNotFoundException, stale_bob)"
    by (simp add: directory_client_def directory_def modify_def attributes_request_def
          stale_bob_def alice_def)
  have a2: "state_handler directory_client alice stale_bob
            = (Inl UserNotFoundException, stale_bob)"
    by (simp add: directory_client_def directory_def modify_def state_handler_def
          stale_bob_def alice_def)
  have first: "UpdateUser directory_client (Some bob) \<lparr>calls = [], pool = stale_bob\<rparr> =
     (None,
      \<lparr>calls =
         [CallAdminUpdateUserAttributes
            \<lparr>update_UserPoolId = Some ''eu-west-1_pool'', update_Username = Some ''bob'',
             update_UserAttributes = [\<lparr>Name = Some ''email'', Value = Some ''b@x.com''\<rparr>]\<rparr>,
          CallAdminDisableUser
            \<lparr>disable_UserPoolId = Some ''eu-west-1_pool'', disable_Username = Some ''bob''\<rparr>],
       pool = ?done\<rparr>)"
    using UpdateUser_attributes_then_state [OF b b1 b2]
    by (simp add: directory_client_def attributes_request_def state_call_def bob_def)
  have third: "UpdateUser directory_client (Some alice) \<lparr>calls = [], pool = stale_bob\<rparr> =
     (Some (Wrapf ''failed to update user attributes for alice'' UserNotFoundException),
      \<lparr>calls =
         [CallAdminUpdateUserAttributes
            \<lparr>update_UserPoolId = Some ''eu-west-1_pool'', update_Username = Some ''alice'',
             update_UserAttributes = [\<lparr>Name = Some ''email'', Value = Some ''a@x.com''\<rparr>]\<rparr>],
       pool = stale_bob\<rparr>)"
    using UpdateUser_attributes_then_state [OF a a1 a2]
    by (simp add: directory_client_def attributes_request_def alice_def)
  have second: "fst (GetUser directory_client ''bob''
          (snd (UpdateUser directory_client (Some bob) \<lparr>calls = [], pool = stale_bob\<rparr>)))
     = Inr bob"
    unfolding first
    by (simp add: GetUser_def invoke_def directory_client_def directory_def deref_def bob_def)
  from first second third show ?thesis by simp
qed

subsection \<open>ListUsers\<close>

lemma observed_filter:
  "List.map_filter observed (filter (\<lambda>cu. ut_Username cu \<noteq> None) cus) =
   List.map_filter observed cus"
  by (induction cus) (auto simp: observed_def)

lemma ListUsers_walk:
  assumes "walk n (cognito c) (userPoolID c) None (pool w) = Some (reqs, r, s')"
  shows "ListUsers c w =
           Some (case r of Inl e \<Rightarrow> Inl (Wrapf ''failed to list users'' e)
                         | Inr ps \<Rightarrow> Inr (List.map_filter observed (concat ps)),
                 \<lparr>calls = calls w @ map CallListUsers reqs, pool = s'\<rparr>)"
  using walk_loop [OF assms, of "[]"] by (cases r) (simp_all add: ListUsers_def)

lemma walk_three_pages:
  "walk (Suc (Suc (Suc 0))) (scripted all_ok) ''eu-west-1_pool'' None three_pages =
     Some ([\<lparr>list_UserPoolId = Some ''eu-west-1_pool'', list_PaginationToken = None\<rparr>,
            \<lparr>list_UserPoolId = Some ''eu-west-1_pool'', list_PaginationToken = Some ''t1''\<rparr>,
            \<lparr>list_UserPoolId = Some ''eu-west-1_pool'', list_PaginationToken = Some ''t2''\<rparr>],
           Inr (map (\<lambda>p. case p of Inl _ \<Rightarrow> [] | Inr out \<Rightarrow> page_Users out) three_pages),
           [])"
  by (simp add: scripted_def three_pages_def)

lemma walk_overlapping_pages:
  "walk (Suc (Suc 0)) (scripted all_ok) ''eu-west-1_pool'' None overlapping_pages =
     Some ([\<lparr>list_UserPoolId = Some ''eu-west-1_pool'', list_PaginationToken = None\<rparr>,
            \<lparr>list_UserPoolId = Some ''eu-west-1_pool'', list_PaginationToken = Some ''t1''\<rparr>],
           Inr [[record_of alice, record_of bob], [record_of bob]],
           [])"
  by (simp add: scripted_def overlapping_pages_def)



text \<open>
  A backend that serves \<open>bob\<close> on two pages: \<open>ListUsers\<close> returns him twice.
\<close>

theorem ListUsers_overlapping_pages_counterexample:
  "ListUsers (client all_ok) (start overlapping_pages) =
     Some (Inr [alice, bob, bob],
           \<lparr>calls =
              [CallListUsers
                 \<lparr>list_UserPoolId = Some ''eu-west-1_pool'', list_PaginationToken = None\<rparr>,
               CallListUsers
                 \<lparr>list_UserPoolId = Some ''eu-west-1_pool'', list_PaginationToken = Some ''t1''\<rparr>],
            pool = []\<rparr>) \<and>
   \<not> distinct (map Username [alice, bob, bob])"
  using ListUsers_walk [of "Suc (Suc 0)" "client all_ok" "start overlapping_pages"]
        walk_overlapping_pages
  by (simp add: client_def start_def observed_def record_of_def first_email_def email_values_def
        alice_def bob_def)

text \<open>
  Claim C2, as the code has it. When the backend serves its records over any number of
  pages of any size, \<open>ListUsers\<close> returns the users of all pages, concatenated in
  the order served. Pages are not deduplicated: the result is free of duplicate usernames
  exactly when no username is reported twice across the pages.
\<close>

theorem ListUsers_concatenates_pages:
  assumes "walk n (cognito c) (userPoolID c) None (pool w) = Some (reqs, Inr ps, s')"
  shows "ListUsers c w =
           Some (Inr (List.map_filter observed (concat ps)),
                 \<lparr>calls = calls w @ map CallListUsers reqs, pool = s'\<rparr>) \<and>
         (distinct (map Username (List.map_filter observed (concat ps))) \<longleftrightarrow>
          distinct (reported_usernames (concat ps)))"
  using ListUsers_walk [OF assms] by (simp add: Username_observed)

theorem ListUsers_concatenates_pages_witness:
  "ListUsers (client all_ok) (start three_pages) =
     Some (Inr [alice, bob],
           \<lparr>calls =
              [CallListUsers
                 \<lparr>list_UserPoolId = Some ''eu-west-1_pool'', list_PaginationToken = None\<rparr>,
               CallListUsers
                 \<lparr>list_UserPoolId = Some ''eu-west-1_pool'', list_PaginationToken = Some ''t1''\<rparr>,
               CallListUsers
                 \<lparr>list_UserPoolId = Some ''eu-west-1_pool'', list_PaginationToken = Some ''t2''\<rparr>],
            pool = []\<rparr>) \<and>
   distinct (map Username [alice, bob])"
  using ListUsers_concatenates_pages
          [of "Suc (Suc (Suc 0))" "client all_ok" "start three_pages"]
        walk_three_pages
  by (simp add: client_def start_def three_pages_def observed_def record_of_def first_email_def
        email_values_def alice_def bob_def)




text \<open>
  Claim C10. \<open>ListUsers\<close> never panics on a nil pointer. The usernames of the users
  it returns are the non-nil usernames the backend reported, in order; a record with a
  nil username changes nothing in the result, and an attribute with a nil name or a
  nil value changes nothing in the email.
\<close>

theorem ListUsers_skips_nil_fields:
  "ListUsers c w \<noteq> Some (Inl (Panic m), w') \<and>
   (walk n (cognito c) (userPoolID c) None (pool w) = Some (reqs, Inr ps, s') \<longrightarrow>
    (\<exists>us w''. ListUsers c w = Some (Inr us, w'') \<and>
       map Username us = reported_usernames (concat ps))) \<and>
   convertUsers cus users = convertUsers (filter (\<lambda>cu. ut_Username cu \<noteq> None) cus) users \<and>
   extractEmail attrs email =
     extractEmail (filter (\<lambda>a. Name a \<noteq> None \<and> Value a \<noteq> None) attrs) email"
proof (intro conjI impI)
  show "ListUsers c w \<noteq> Some (Inl (Panic m), w')"
  proof
    assume l: "ListUsers c w = Some (Inl (Panic m), w')"
    then have "ListUsers_loop c [] None w = Some (Inl (Panic m), w')"
      by (simp add: ListUsers_def)
    from loop_walk [OF this]
    obtain n where "walk n (cognito c) (userPoolID c) None (pool w) \<noteq> None" ..
    then obtain reqs r s' where
      "walk n (cognito c) (userPoolID c) None (pool w) = Some (reqs, r, s')"
      by (cases "walk n (cognito c) (userPoolID c) None (pool w)") auto
    from ListUsers_walk [OF this] l show False by (cases r) simp_all
  qed
next
  assume "walk n (cognito c) (userPoolID c) None (pool w) = Some (reqs, Inr ps, s')"
  from ListUsers_walk [OF this]
  show "\<exists>us w''. ListUsers c w = Some (Inr us, w'') \<and>
          map Username us = reported_usernames (concat ps)"
    by (simp add: Username_observed)
next
  show "convertUsers cus users =
          convertUsers (filter (\<lambda>cu. ut_Username cu \<noteq> None) cus) users"
    by (simp only: convertUsers_eq observed_filter)
next
  show "extractEmail attrs email =
          extractEmail (filter (\<lambda>a. Name a \<noteq> None \<and> Value a \<noteq> None) attrs) email"
    by (simp only: extractEmail_eq email_values_filter)
qed

theorem ListUsers_skips_nil_fields_witness:
  "(\<exists>us w''. ListUsers (client all_ok) (start three_pages) = Some (Inr us, w'') \<and>
      map Username us = [''alice'', ''bob'']) \<and>
   ListUsers (client all_ok) (start three_pages) \<noteq>
     Some (Inl (Panic ''nil pointer dereference''), \<lparr>calls = [], pool = []\<rparr>)"
  using ListUsers_skips_nil_fields
          [of "client all_ok" "start three_pages" "''nil pointer dereference''"
              "\<lparr>calls = [], pool = []\<rparr>" "Suc (Suc (Suc 0))"
              "[\<lparr>list_UserPoolId = Some ''eu-west-1_pool'', list_PaginationToken = None\<rparr>,
                \<lparr>list_UserPoolId = Some ''eu-west-1_pool'', list_PaginationToken = Some ''t1''\<rparr>,
                \<lparr>list_UserPoolId = Some ''eu-west-1_pool'', list_PaginationToken = Some ''t2''\<rparr>]"
              "map (\<lambda>p. case p of Inl _ \<Rightarrow> [] | Inr out \<Rightarrow> page_Users out) three_pages" "[]"]
        walk_three_pages
  by (simp add: client_def start_def three_pages_def reported_usernames_def record_of_def
        alice_def)

end
